theory Spec2Isabelle
  imports Complex_Main
begin

section \<open>Strings\<close>

text \<open>
  JavaScript strings are modelled as HOL strings; a character is one of the code units
  U+0000 to U+00FF. The three string operations the Analyze page uses on file names and on
  the pasted code are \<^verbatim>\<open>split\<close>, \<^verbatim>\<open>toLowerCase\<close> and \<^verbatim>\<open>trim\<close>.
\<close>

text \<open>\<^verbatim>\<open>s.split(sep)\<close> for a one-character separator: the result is never empty,
  \<^verbatim>\<open>''.split('.')\<close> is \<^verbatim>\<open>['']\<close>.\<close>

fun split :: "string \<Rightarrow> char \<Rightarrow> string list" where
  "split [] sep = [[]]"
| "split (c # cs) sep =
     (if c = sep then [] # split cs sep
      else (case split cs sep of [] \<Rightarrow> [[c]] | s # ss \<Rightarrow> (c # s) # ss))"

text \<open>\<^verbatim>\<open>xs.pop()\<close> reads the last element, \<^verbatim>\<open>undefined\<close> on an empty array.\<close>

definition pop :: "'a list \<Rightarrow> 'a option" where
  "pop xs = (if xs = [] then None else Some (last xs))"

text \<open>The capital letters of this range are A to Z (65 to 90) and the accented capitals
  192 to 222 without the multiplication sign 215; each has its small letter 32 further on.\<close>

definition toLowerCase_char :: "char \<Rightarrow> char" where
  "toLowerCase_char c =
     (if (65 \<le> (of_char c :: nat) \<and> (of_char c :: nat) \<le> 90)
         \<or> (192 \<le> (of_char c :: nat) \<and> (of_char c :: nat) \<le> 214)
         \<or> (216 \<le> (of_char c :: nat) \<and> (of_char c :: nat) \<le> 222)
      then char_of ((of_char c :: nat) + 32) else c)"

definition toLowerCase :: "string \<Rightarrow> string" where
  "toLowerCase s = map toLowerCase_char s"

text \<open>White space removed by \<^verbatim>\<open>trim\<close>: TAB, LF, VT, FF, CR, SPACE and the no-break
  space U+00A0.\<close>

definition isWhiteSpace :: "char \<Rightarrow> bool" where
  "isWhiteSpace c = ((of_char c :: nat) \<in> {9, 10, 11, 12, 13, 32, 160})"

definition trim :: "string \<Rightarrow> string" where
  "trim s = rev (dropWhile isWhiteSpace (rev (dropWhile isWhiteSpace s)))"

text \<open>\<^verbatim>\<open>s.substring(1)\<close>.\<close>

definition substring1 :: "string \<Rightarrow> string" where
  "substring1 s = drop 1 s"

text \<open>\<^verbatim>\<open>s.endsWith(suffix)\<close>.\<close>

definition endsWith :: "string \<Rightarrow> string \<Rightarrow> bool" where
  "endsWith s suffix =
     (length suffix \<le> length s \<and> drop (length s - length suffix) s = suffix)"

section \<open>The extension of a file name\<close>

text \<open>
  What the statements about the file inputs mean by the extension of a file: the part of
  the name from its last dot on, compared without regard to case, so given in small letters.
  A name without a dot has no extension. This definition is the yardstick; it is not taken
  from the upload handler, whose own computation is \<open>fileExtension\<close> below.
\<close>

definition spec_extension :: "string \<Rightarrow> string option" where
  "spec_extension n =
     (if CHR ''.'' \<in> set n
      then Some (CHR ''.'' # rev (takeWhile (\<lambda>c. c \<noteq> CHR ''.'') (rev (toLowerCase n))))
      else None)"

section \<open>Data model of the Analyze page\<close>

text \<open>A notification passed to \<^verbatim>\<open>toast\<close>; \<^verbatim>\<open>variant\<close> is optional.\<close>

record toast =
  title :: string
  description :: string
  variant :: "string option"

text \<open>One entry of \<^verbatim>\<open>AnalysisResult.problems\<close>; the field names carry the suffix
  \<open>_p\<close>.\<close>

record problem =
  type_p :: string
  title_p :: string
  description_p :: string
  line_p :: "nat option"
  fix_p :: string

text \<open>\<^verbatim>\<open>interface AnalysisResult\<close>; the field \<^verbatim>\<open>fixes\<close> is
  \<open>fixes_r\<close> here.\<close>

record AnalysisResult =
  summary :: string
  problems :: "problem list"
  fixes_r :: string
  confidence :: int
  securityIssues :: int
  performanceIssues :: int
  bugCount :: int

text \<open>The two properties of a browser \<^verbatim>\<open>File\<close> that the upload handler reads:
  \<^verbatim>\<open>file.name\<close> and \<^verbatim>\<open>file.size\<close> (a number of bytes).\<close>

record File =
  name :: string
  size_f :: nat

text \<open>The six \<^verbatim>\<open>useState\<close> cells of the \<^verbatim>\<open>Analyze\<close> component.\<close>

record analyze_state =
  code :: string
  language :: string
  isAnalyzing :: bool
  progress :: nat
  analysisResult :: "AnalysisResult option"
  uploadedFile :: "File option"

definition initial_state :: analyze_state where
  "initial_state =
     \<lparr>code = [], language = ''javascript'', isAnalyzing = False, progress = 0,
      analysisResult = None, uploadedFile = None\<rparr>"

section \<open>handleFileUpload\<close>

definition allowedTypes :: "string list" where
  "allowedTypes =
     [''.js'', ''.ts'', ''.jsx'', ''.tsx'', ''.py'', ''.java'', ''.cpp'', ''.c'',
      ''.php'', ''.rb'', ''.go'', ''.rs'']"

text \<open>\<^verbatim>\<open>'.' + file.name.split('.').pop()?.toLowerCase()\<close>; concatenating
  \<^verbatim>\<open>undefined\<close> would give \<^verbatim>\<open>'.undefined'\<close>.\<close>

definition fileExtension :: "File \<Rightarrow> string" where
  "fileExtension file =
     ''.'' @ (case pop (split (name file) CHR ''.'') of
                None \<Rightarrow> ''undefined''
              | Some s \<Rightarrow> toLowerCase s)"

definition invalid_file_type :: toast where
  "invalid_file_type =
     \<lparr>title = ''Invalid file type'',
      description = ''Please upload a supported code file (.js, .ts, .py, .java, etc.)'',
      variant = Some ''destructive''\<rparr>"

definition file_too_large :: toast where
  "file_too_large =
     \<lparr>title = ''File too large'',
      description = ''Please upload a file smaller than 10MB.'',
      variant = Some ''destructive''\<rparr>"

text \<open>The \<^verbatim>\<open>langMap\<close> object literal of the \<^verbatim>\<open>onload\<close> callback.\<close>

definition langMap :: "string \<rightharpoonup> string" where
  "langMap =
     map_of
       [(''js'', ''javascript''), (''jsx'', ''javascript''), (''ts'', ''typescript''),
        (''tsx'', ''typescript''), (''py'', ''python''), (''java'', ''java''),
        (''cpp'', ''cpp''), (''c'', ''c''), (''php'', ''php''), (''rb'', ''ruby''),
        (''go'', ''go''), (''rs'', ''rust'')]"

text \<open>
  \<^verbatim>\<open>reader.onload\<close>: stores the text that was read and, when \<^verbatim>\<open>langMap[ext]\<close>
  is truthy (present and not the empty string), the detected language. The callback is
  only ever installed for an extension of \<open>allowedTypes\<close>.
\<close>

definition reader_onload :: "string \<Rightarrow> string \<Rightarrow> analyze_state \<Rightarrow> analyze_state" where
  "reader_onload fileExt content st =
     (let st1 = st\<lparr>code := content\<rparr>;
          ext = substring1 fileExt
      in case langMap ext of
           None \<Rightarrow> st1
         | Some l \<Rightarrow> if l = [] then st1 else st1\<lparr>language := l\<rparr>)"

text \<open>
  \<^verbatim>\<open>handleFileUpload\<close>. The first argument is the component state, the second
  \<^verbatim>\<open>event.target.files?.[0]\<close>, the third what the \<^verbatim>\<open>FileReader\<close> delivers:
  \<open>Some content\<close> when \<^verbatim>\<open>onload\<close> fires, \<open>None\<close> when the read fails (no
  \<^verbatim>\<open>onerror\<close> handler is installed). The callback is taken to run before any
  other event is handled. The result is the new state and the notifications shown.
\<close>

definition handleFileUpload ::
  "analyze_state \<Rightarrow> File option \<Rightarrow> string option \<Rightarrow> analyze_state \<times> toast list" where
  "handleFileUpload st files0 readResult =
     (case files0 of
        None \<Rightarrow> (st, [])
      | Some file \<Rightarrow>
          if fileExtension file \<notin> set allowedTypes then (st, [invalid_file_type])
          else if size_f file > 10 * 1024 * 1024 then (st, [file_too_large])
          else
            (let st1 = st\<lparr>uploadedFile := Some file\<rparr>
             in case readResult of
                  None \<Rightarrow> (st1, [])
                | Some content \<Rightarrow> (reader_onload (fileExtension file) content st1, [])))"

section \<open>The Dropzone component\<close>

text \<open>
  The default values of the \<^verbatim>\<open>accept\<close>, \<^verbatim>\<open>maxFiles\<close> and \<^verbatim>\<open>maxSize\<close>
  properties of \<^verbatim>\<open>Dropzone\<close>: MIME types, each with the file extensions listed for
  it, and the two limits.
\<close>

definition dropzone_default_accept :: "(string \<times> string list) list" where
  "dropzone_default_accept =
     [(''text/*'',
        [''.js'', ''.ts'', ''.jsx'', ''.tsx'', ''.py'', ''.java'', ''.cpp'', ''.c'',
         ''.php'', ''.rb'', ''.go'', ''.rs'']),
      (''application/pdf'', [''.pdf''])]"

definition dropzone_default_maxFiles :: nat where
  "dropzone_default_maxFiles = 1"

definition dropzone_default_maxSize :: nat where
  "dropzone_default_maxSize = 10 * 1024 * 1024"

text \<open>A dropped \<^verbatim>\<open>File\<close> as the hook reads it: besides the name and the size, its
  MIME type \<^verbatim>\<open>file.type\<close>.\<close>

record DropFile = File +
  type_f :: string

text \<open>
  The component hands these properties to the \<^verbatim>\<open>useDropzone\<close> hook of the
  react-dropzone library, which decides what is accepted. The hook is not part of the
  repository; the following three definitions give its matching rule. The keys and the
  extensions of \<^verbatim>\<open>accept\<close> form one list of entries. An entry that begins with a dot
  matches a file whose lower-cased name ends with it; an entry \<^verbatim>\<open>type/*\<close> matches a
  file whose MIME type has that part before the slash; any other entry matches a file with
  exactly that MIME type. A file is accepted when some entry matches it, or its type is the
  one old Firefox versions report for every dragged file, and it is not larger than
  \<^verbatim>\<open>maxSize\<close>. The limit \<^verbatim>\<open>maxFiles\<close> only ever rejects further files of one
  drop, so what is accepted is at most what is described here.
\<close>

definition accept_entries :: "(string \<times> string list) list \<Rightarrow> string list" where
  "accept_entries accept = concat (map (\<lambda>(mime, exts). mime # exts) accept)"

definition accept_entry_matches :: "string \<Rightarrow> DropFile \<Rightarrow> bool" where
  "accept_entry_matches entry file =
     (let validType = toLowerCase (trim entry);
          mimeType = toLowerCase (type_f file)
      in if take 1 validType = ''.'' then endsWith (toLowerCase (name file)) validType
         else if endsWith validType ''/*''
           then takeWhile (\<lambda>c. c \<noteq> CHR ''/'') mimeType
                  = takeWhile (\<lambda>c. c \<noteq> CHR ''/'') validType
         else mimeType = validType)"

definition useDropzone_accepts ::
  "(string \<times> string list) list \<Rightarrow> nat \<Rightarrow> DropFile \<Rightarrow> bool" where
  "useDropzone_accepts accept maxSize file =
     ((type_f file = ''application/x-moz-file''
         \<or> list_ex (\<lambda>entry. accept_entry_matches entry file) (accept_entries accept))
      \<and> size_f file \<le> maxSize)"

text \<open>The \<^verbatim>\<open>Dropzone\<close> component with its default properties.\<close>

definition Dropzone_accepts :: "DropFile \<Rightarrow> bool" where
  "Dropzone_accepts file =
     useDropzone_accepts dropzone_default_accept dropzone_default_maxSize file"

section \<open>simulateAnalysis and handleAnalyze\<close>

text \<open>
  \<^verbatim>\<open>simulateAnalysis\<close> takes no argument and reads no state. What it does besides
  returning is a sequence of two kinds of effect: waiting for a timer
  (\<^verbatim>\<open>await new Promise(resolve => setTimeout(resolve, ms))\<close>) and writing the progress
  cell (\<^verbatim>\<open>setProgress(p)\<close>). An asynchronous analysis step is therefore the list of
  its effects, in order, together with its outcome: the value it resolves to, or the error
  it throws.
\<close>

datatype effect = SetTimeout nat | SetProgress nat

datatype js_error = Error string

type_synonym 'a async = "effect list \<times> (js_error + 'a)"

record progressStep =
  progress_s :: nat
  message :: string

definition progressSteps :: "progressStep list" where
  "progressSteps =
     [\<lparr>progress_s = 20, message = ''Parsing code structure...''\<rparr>,
      \<lparr>progress_s = 40, message = ''Analyzing for bugs...''\<rparr>,
      \<lparr>progress_s = 60, message = ''Checking security vulnerabilities...''\<rparr>,
      \<lparr>progress_s = 80, message = ''Generating fixes...''\<rparr>,
      \<lparr>progress_s = 100, message = ''Analysis complete!''\<rparr>]"

text \<open>The loop \<^verbatim>\<open>for (const step of progressSteps)\<close>: a timer of 800 ms, then the
  progress update.\<close>

fun for_progressSteps :: "progressStep list \<Rightarrow> effect list" where
  "for_progressSteps [] = []"
| "for_progressSteps (step # steps) =
     SetTimeout 800 # SetProgress (progress_s step) # for_progressSteps steps"

text \<open>Lines of a template literal, separated by line feeds.\<close>

fun template_lines :: "string list \<Rightarrow> string" where
  "template_lines [] = []"
| "template_lines [l] = l"
| "template_lines (l # ls) = l @ CHR 0x0A # template_lines ls"

definition mock_fixes :: string where
  "mock_fixes =
     template_lines
       [''// Fixed code with improvements:'',
        ''import React, { useState, useEffect, memo } from 'react';'',
        '''',
        ''const UserProfile = memo(({ userId }) => {'',
        ''  const [user, setUser] = useState(null);'',
        ''  const [loading, setLoading] = useState(false);'',
        '''',
        ''  useEffect(() => {'',
        ''    let isMounted = true;'',
        ''    setLoading(true);'',
        ''    '',
        ''    fetch(`/api/users/${userId}`)'',
        ''      .then(response => response.json())'',
        ''      .then(data => {'',
        ''        if (isMounted) {'',
        ''          setUser(data);'',
        ''          setLoading(false);'',
        ''        }'',
        ''      })'',
        ''      .catch(err => {'',
        ''        if (isMounted) {'',
        ''          console.error('Failed to fetch user:', err);'',
        ''          setLoading(false);'',
        ''        }'',
        ''      });'',
        '''',
        ''    return () => {'',
        ''      isMounted = false;'',
        ''    };'',
        ''  }, [userId]);'',
        '''',
        ''  return ('',
        ''    <div>'',
        ''      <h1>{user?.name || 'Unknown User'}</h1>'',
        ''      {loading && <p>Loading...</p>}'',
        ''    </div>'',
        ''  );'',
        ''});'']"

definition simulateAnalysis :: "AnalysisResult async" where
  "simulateAnalysis =
     (for_progressSteps progressSteps,
      Inr \<lparr>summary = ''Found 3 issues: 1 critical security vulnerability, 1 performance issue, and 1 potential bug. Recommended fixes provided.'',
           problems =
             [\<lparr>type_p = ''critical'', title_p = ''XSS Vulnerability'',
               description_p = ''Unsafe use of dangerouslySetInnerHTML with user data'',
               line_p = Some 23,
               fix_p = ''Use safe text rendering instead of HTML injection''\<rparr>,
              \<lparr>type_p = ''warning'', title_p = ''Memory Leak Risk'',
               description_p = ''useEffect missing cleanup function'',
               line_p = Some 15,
               fix_p = ''Add cleanup function and dependency array''\<rparr>,
              \<lparr>type_p = ''info'', title_p = ''Performance Optimization'',
               description_p = ''Consider using React.memo for this component'',
               line_p = Some 8,
               fix_p = ''Wrap component with React.memo to prevent unnecessary re-renders''\<rparr>],
           fixes_r = mock_fixes,
           confidence = 94,
           securityIssues = 1,
           performanceIssues = 1,
           bugCount = 1\<rparr>)"

text \<open>The effects of an analysis step on the component state.\<close>

fun apply_effect :: "effect \<Rightarrow> analyze_state \<Rightarrow> analyze_state" where
  "apply_effect (SetTimeout ms) st = st"
| "apply_effect (SetProgress p) st = st\<lparr>progress := p\<rparr>"

definition run_effects :: "effect list \<Rightarrow> analyze_state \<Rightarrow> analyze_state" where
  "run_effects effs st = fold apply_effect effs st"

text \<open>The values written to the progress cell, in order.\<close>

fun progress_updates :: "effect list \<Rightarrow> nat list" where
  "progress_updates [] = []"
| "progress_updates (SetTimeout ms # effs) = progress_updates effs"
| "progress_updates (SetProgress p # effs) = p # progress_updates effs"

text \<open>The values the progress cell holds while the effects run: before the first effect
  and after each one.\<close>

fun progress_trace :: "effect list \<Rightarrow> analyze_state \<Rightarrow> nat list" where
  "progress_trace [] st = [progress st]"
| "progress_trace (e # effs) st = progress st # progress_trace effs (apply_effect e st)"

text \<open>Decimal digits of a number, for the template literal of the completion notice.\<close>

fun string_of_nat :: "nat \<Rightarrow> string" where
  "string_of_nat n =
     (if n < 10 then [char_of (48 + n)]
      else string_of_nat (n div 10) @ [char_of (48 + n mod 10)])"

declare string_of_nat.simps [simp del]

definition string_of_int :: "int \<Rightarrow> string" where
  "string_of_int i =
     (if i < 0 then CHR ''-'' # string_of_nat (nat (- i)) else string_of_nat (nat i))"

definition no_code_to_analyze :: toast where
  "no_code_to_analyze =
     \<lparr>title = ''No code to analyze'',
      description = ''Please paste code or upload a file first.'',
      variant = Some ''destructive''\<rparr>"

definition analysis_complete :: "AnalysisResult \<Rightarrow> toast" where
  "analysis_complete result =
     \<lparr>title = ''Analysis complete!'',
      description =
        ''Found '' @ string_of_nat (length (problems result)) @ '' issues with ''
          @ string_of_int (confidence result) @ ''% confidence.'',
      variant = None\<rparr>"

definition analysis_failed :: toast where
  "analysis_failed =
     \<lparr>title = ''Analysis failed'',
      description = ''Something went wrong. Please try again.'',
      variant = Some ''destructive''\<rparr>"

text \<open>
  \<^verbatim>\<open>handleAnalyze\<close>, with the awaited analysis step as a parameter: the guard on
  blank code, the three state resets, then \<^verbatim>\<open>try\<close> (store the result, completion
  notice), \<^verbatim>\<open>catch\<close> (failure notice) and \<^verbatim>\<open>finally\<close>
  (\<^verbatim>\<open>setIsAnalyzing(false)\<close>). The result is the state after the handler has
  returned, the notifications shown, and the progress writes and timers performed, in
  order: the reset \<^verbatim>\<open>setProgress(0)\<close> followed by the effects of the step, which is
  awaited once.
\<close>

definition handleAnalyze_run ::
  "AnalysisResult async \<Rightarrow> analyze_state \<Rightarrow> analyze_state \<times> toast list \<times> effect list" where
  "handleAnalyze_run analysis st =
     (if trim (code st) = [] then (st, [no_code_to_analyze], [])
      else
        (let st1 = st\<lparr>isAnalyzing := True, progress := 0, analysisResult := None\<rparr>;
             st2 = run_effects (fst analysis) st1
         in case snd analysis of
              Inr result \<Rightarrow>
                (st2\<lparr>analysisResult := Some result, isAnalyzing := False\<rparr>,
                 [analysis_complete result],
                 SetProgress 0 # fst analysis)
            | Inl err \<Rightarrow>
                (st2\<lparr>isAnalyzing := False\<rparr>, [analysis_failed],
                 SetProgress 0 # fst analysis)))"

text \<open>The state and the notifications of a run.\<close>

definition handleAnalyze_with ::
  "AnalysisResult async \<Rightarrow> analyze_state \<Rightarrow> analyze_state \<times> toast list" where
  "handleAnalyze_with analysis st =
     (fst (handleAnalyze_run analysis st), fst (snd (handleAnalyze_run analysis st)))"

text \<open>The handler as the page has it: the step is \<^verbatim>\<open>simulateAnalysis\<close>.\<close>

definition handleAnalyze :: "analyze_state \<Rightarrow> analyze_state \<times> toast list" where
  "handleAnalyze st = handleAnalyze_with simulateAnalysis st"

text \<open>
  The labels of the tab triggers in the results card: the \<^verbatim>\<open>Tabs\<close> element is
  rendered when \<^verbatim>\<open>analysisResult\<close> is not null.
\<close>

definition results_tabs :: "analyze_state \<Rightarrow> string list" where
  "results_tabs st =
     (case analysisResult st of
        None \<Rightarrow> []
      | Some r \<Rightarrow> [''Summary'', ''Issues'', ''Fixes''])"

section \<open>The other notifications: copyToClipboard and handleSignOut\<close>

text \<open>\<^verbatim>\<open>copyToClipboard\<close> of the Analyze page writes the clipboard and shows a notice;
  the component state is not touched.\<close>

definition copied_to_clipboard :: toast where
  "copied_to_clipboard =
     \<lparr>title = ''Copied to clipboard'',
      description = ''Text has been copied to your clipboard.'',
      variant = None\<rparr>"

definition copyToClipboard :: "string \<Rightarrow> analyze_state \<Rightarrow> analyze_state \<times> toast list" where
  "copyToClipboard text st = (st, [copied_to_clipboard])"

definition signed_out :: toast where
  "signed_out =
     \<lparr>title = ''Signed out successfully'',
      description = ''You've been signed out of your account.'',
      variant = None\<rparr>"

definition error_signing_out :: toast where
  "error_signing_out =
     \<lparr>title = ''Error signing out'',
      description = ''Something went wrong. Please try again.'',
      variant = Some ''destructive''\<rparr>"

text \<open>\<^verbatim>\<open>handleSignOut\<close> of the header: the argument is the outcome of the awaited
  \<^verbatim>\<open>signOut()\<close> of the authentication context, \<open>Some err\<close> when it throws.\<close>

definition handleSignOut :: "js_error option \<Rightarrow> toast list" where
  "handleSignOut signOut =
     (case signOut of None \<Rightarrow> [signed_out] | Some err \<Rightarrow> [error_signing_out])"

text \<open>
  The user actions that reach a call of \<^verbatim>\<open>toast\<close>, each with what the environment
  contributes to it (the chosen file and what the reader delivers, the outcome of the
  analysis step, the copied text, the outcome of signing out), and the handler each one runs.
\<close>

datatype ui_event =
    FileUpload "File option" "string option"
  | Analyze "AnalysisResult async"
  | CopyToClipboard string
  | SignOut "js_error option"

fun handle_event :: "ui_event \<Rightarrow> analyze_state \<Rightarrow> analyze_state \<times> toast list" where
  "handle_event (FileUpload files0 readResult) st = handleFileUpload st files0 readResult"
| "handle_event (Analyze analysis) st = handleAnalyze_with analysis st"
| "handle_event (CopyToClipboard text) st = copyToClipboard text st"
| "handle_event (SignOut signOut) st = (st, handleSignOut signOut)"

text \<open>A session: the events are handled one after the other; the notifications accumulate.\<close>

fun run_events :: "ui_event list \<Rightarrow> analyze_state \<Rightarrow> analyze_state \<times> toast list" where
  "run_events [] st = (st, [])"
| "run_events (ev # evs) st =
     (let (st1, ts1) = handle_event ev st;
          (st2, ts2) = run_events evs st1
      in (st2, ts1 @ ts2))"

section \<open>The Dashboard statistics\<close>

text \<open>\<^verbatim>\<open>interface Analysis\<close>; the field names that occur in other records carry the
  suffix \<open>_a\<close>.\<close>

datatype analysis_status = completed | analyzing | failed

record Analysis =
  id_a :: string
  title_a :: string
  language_a :: string
  status_a :: analysis_status
  createdAt :: string
  issuesFound :: int
  confidence_a :: int

definition mockAnalyses :: "Analysis list" where
  "mockAnalyses =
     [\<lparr>id_a = ''1'', title_a = ''UserProfile.tsx'', language_a = ''TypeScript'',
       status_a = completed, createdAt = ''2024-01-15T10:30:00Z'', issuesFound = 4,
       confidence_a = 95\<rparr>,
      \<lparr>id_a = ''2'', title_a = ''auth-service.js'', language_a = ''JavaScript'',
       status_a = completed, createdAt = ''2024-01-14T15:45:00Z'', issuesFound = 2,
       confidence_a = 87\<rparr>,
      \<lparr>id_a = ''3'', title_a = ''database-utils.py'', language_a = ''Python'',
       status_a = analyzing, createdAt = ''2024-01-14T09:20:00Z'', issuesFound = 0,
       confidence_a = 0\<rparr>]"

text \<open>
  The numbers the statistic computes with: \<^verbatim>\<open>NaN\<close>, the two infinities and the finite
  values. Confidences are whole percentages, their sum and the length of the list are
  integers, and the quotient is taken exactly.
\<close>

datatype jsnum = NaN | PosInfinity | NegInfinity | Num real

text \<open>\<^verbatim>\<open>a / b\<close> for an integer \<open>a\<close> and a length \<open>b\<close>: \<^verbatim>\<open>0 / 0\<close> is
  \<^verbatim>\<open>NaN\<close>.\<close>

definition js_div :: "int \<Rightarrow> nat \<Rightarrow> jsnum" where
  "js_div a b =
     (if b = 0 then (if a = 0 then NaN else if 0 < a then PosInfinity else NegInfinity)
      else Num (real_of_int a / real b))"

text \<open>\<^verbatim>\<open>Math.round\<close>: the nearest integer, a tie goes up; \<^verbatim>\<open>NaN\<close> and the
  infinities are returned as they are.\<close>

fun Math_round :: "jsnum \<Rightarrow> jsnum" where
  "Math_round (Num x) = Num (of_int \<lfloor>x + 1 / 2\<rfloor>)"
| "Math_round n = n"

text \<open>\<^verbatim>\<open>a || b\<close> on numbers: \<^verbatim>\<open>NaN\<close> and zero are falsy.\<close>

fun truthy :: "jsnum \<Rightarrow> bool" where
  "truthy NaN = False"
| "truthy (Num x) = (x \<noteq> 0)"
| "truthy n = True"

definition js_or :: "jsnum \<Rightarrow> jsnum \<Rightarrow> jsnum" where
  "js_or a b = (if truthy a then a else b)"

text \<open>\<^verbatim>\<open>xs.reduce(f, init)\<close>.\<close>

fun reduce :: "('b \<Rightarrow> 'a \<Rightarrow> 'b) \<Rightarrow> 'b \<Rightarrow> 'a list \<Rightarrow> 'b" where
  "reduce f acc [] = acc"
| "reduce f acc (x # xs) = reduce f (f acc x) xs"

text \<open>The "Issues Found" and "Avg Confidence" cards.\<close>

definition issuesFoundTotal :: "Analysis list \<Rightarrow> int" where
  "issuesFoundTotal analyses = reduce (\<lambda>sum a. sum + issuesFound a) 0 analyses"

definition avgConfidence :: "Analysis list \<Rightarrow> jsnum" where
  "avgConfidence analyses =
     js_or (Math_round (js_div (reduce (\<lambda>sum a. sum + confidence_a a) 0 analyses)
                               (length analyses)))
           (Num 0)"

section \<open>Properties of the upload handler\<close>

lemma split_not_Nil: "split s sep \<noteq> []"
  by (induction s) (auto split: list.splits)

lemma split_no_sep: "sep \<notin> set s \<Longrightarrow> split s sep = [s]"
  by (induction s) auto

lemma split_sep_two: "sep \<in> set s \<Longrightarrow> \<exists>a b bs. split s sep = a # b # bs"
proof (induction s)
  case Nil
  then show ?case by simp
next
  case (Cons c cs)
  show ?case
  proof (cases "c = sep")
    case True
    then show ?thesis using split_not_Nil [of cs sep] by (cases "split cs sep") auto
  next
    case False
    with Cons.prems have "sep \<in> set cs" by simp
    then obtain a b bs where "split cs sep = a # b # bs" using Cons.IH by blast
    with False show ?thesis by simp
  qed
qed

text \<open>
  The handler's last dot-separated segment is what follows the last dot of the name, or the
  whole name when there is no dot; lower-casing neither adds nor removes a dot.
\<close>

lemma of_char_toLowerCase_char:
  "(of_char (toLowerCase_char c) :: nat) =
     (if (65 \<le> (of_char c :: nat) \<and> (of_char c :: nat) \<le> 90)
         \<or> (192 \<le> (of_char c :: nat) \<and> (of_char c :: nat) \<le> 214)
         \<or> (216 \<le> (of_char c :: nat) \<and> (of_char c :: nat) \<le> 222)
      then of_char c + 32 else of_char c)"
  by (auto simp: toLowerCase_char_def)

lemma of_char_dot: "(of_char CHR ''.'' :: nat) = 46"
  by simp

lemma toLowerCase_char_dot_iff: "toLowerCase_char c = CHR ''.'' \<longleftrightarrow> c = CHR ''.''"
proof
  assume "toLowerCase_char c = CHR ''.''"
  then have "(of_char (toLowerCase_char c) :: nat) = 46" by simp
  then have "(of_char c :: nat) = 46"
    unfolding of_char_toLowerCase_char by (simp split: if_splits)
  then have "(of_char c :: nat) = of_char CHR ''.''" by simp
  then show "c = CHR ''.''" by (simp only: of_char_eq_iff)
next
  assume "c = CHR ''.''"
  then show "toLowerCase_char c = CHR ''.''" by (simp add: toLowerCase_char_def)
qed

lemma dot_toLowerCase_char_iff: "CHR ''.'' = toLowerCase_char c \<longleftrightarrow> c = CHR ''.''"
  using toLowerCase_char_dot_iff [of c] by auto

lemma dot_in_toLowerCase: "CHR ''.'' \<in> set (toLowerCase n) \<longleftrightarrow> CHR ''.'' \<in> set n"
  by (induction n)
    (auto simp: toLowerCase_def toLowerCase_char_dot_iff dot_toLowerCase_char_iff)

lemma takeWhile_toLowerCase:
  "takeWhile (\<lambda>c. c \<noteq> CHR ''.'') (toLowerCase s)
     = toLowerCase (takeWhile (\<lambda>c. c \<noteq> CHR ''.'') s)"
  by (induction s) (simp_all add: toLowerCase_def toLowerCase_char_dot_iff)

lemma last_split_takeWhile:
  "last (split s sep) = rev (takeWhile (\<lambda>c. c \<noteq> sep) (rev s))"
proof (induction s)
  case Nil
  show ?case by simp
next
  case (Cons c cs)
  show ?case
  proof (cases "sep \<in> set cs")
    case True
    then obtain a b bs where ab: "split cs sep = a # b # bs" using split_sep_two by blast
    have l: "last (split (c # cs) sep) = last (split cs sep)" using ab by simp
    have "takeWhile (\<lambda>c. c \<noteq> sep) (rev cs @ [c]) = takeWhile (\<lambda>c. c \<noteq> sep) (rev cs)"
      using True by (intro takeWhile_append1 [of sep]) simp_all
    then show ?thesis using l Cons.IH by simp
  next
    case False
    then have sp: "split cs sep = [cs]" by (rule split_no_sep)
    have "takeWhile (\<lambda>c. c \<noteq> sep) (rev cs @ [c])
        = rev cs @ takeWhile (\<lambda>c. c \<noteq> sep) [c]"
      using False by (intro takeWhile_append2) auto
    then show ?thesis using sp by simp
  qed
qed

lemma fileExtension_eq_extension:
  assumes "CHR ''.'' \<in> set (name file)"
  shows "spec_extension (name file) = Some (fileExtension file)"
proof -
  have "fileExtension file = CHR ''.'' # toLowerCase (last (split (name file) CHR ''.''))"
    by (simp add: fileExtension_def pop_def split_not_Nil)
  also have "toLowerCase (last (split (name file) CHR ''.''))
      = rev (toLowerCase (takeWhile (\<lambda>c. c \<noteq> CHR ''.'') (rev (name file))))"
    by (simp add: last_split_takeWhile toLowerCase_def rev_map)
  also have "toLowerCase (takeWhile (\<lambda>c. c \<noteq> CHR ''.'') (rev (name file)))
      = takeWhile (\<lambda>c. c \<noteq> CHR ''.'') (toLowerCase (rev (name file)))"
    by (simp only: takeWhile_toLowerCase)
  also have "toLowerCase (rev (name file)) = rev (toLowerCase (name file))"
    by (simp add: toLowerCase_def rev_map)
  finally show ?thesis using assms by (simp add: spec_extension_def)
qed

lemma endsWith_iff: "endsWith s suf \<longleftrightarrow> (\<exists>pre. s = pre @ suf)"
proof
  assume "endsWith s suf"
  then have "s = take (length s - length suf) s @ suf"
    unfolding endsWith_def by (metis append_take_drop_id)
  then show "\<exists>pre. s = pre @ suf" by blast
next
  assume "\<exists>pre. s = pre @ suf"
  then show "endsWith s suf" by (auto simp: endsWith_def)
qed

lemma endsWith_extension:
  assumes "endsWith (toLowerCase n) (CHR ''.'' # e)" and "CHR ''.'' \<notin> set e"
  shows "spec_extension n = Some (CHR ''.'' # e)"
proof -
  obtain pre where pre: "toLowerCase n = pre @ CHR ''.'' # e"
    using assms(1) endsWith_iff by blast
  then have "CHR ''.'' \<in> set (toLowerCase n)" by simp
  then have dot: "CHR ''.'' \<in> set n" by (simp only: dot_in_toLowerCase)
  have "takeWhile (\<lambda>c. c \<noteq> CHR ''.'') (rev e @ CHR ''.'' # rev pre) = rev e"
    using assms(2) by (subst takeWhile_append2) auto
  then have "rev (takeWhile (\<lambda>c. c \<noteq> CHR ''.'') (rev (toLowerCase n))) = e"
    by (simp add: pre)
  then show ?thesis using dot by (simp add: spec_extension_def)
qed

text \<open>
  The handler does what is asked of it on every name that contains a dot: a file whose
  extension is not in the allow-list is rejected with the notice "Invalid file type" and the
  state stays as it was.
\<close>

lemma handleFileUpload_rejects_extension:
  assumes "CHR ''.'' \<in> set (name file)"
    and "\<forall>e \<in> set allowedTypes. spec_extension (name file) \<noteq> Some e"
  shows "handleFileUpload st (Some file) r = (st, [invalid_file_type])"
proof -
  have "fileExtension file \<notin> set allowedTypes"
    using assms(2) fileExtension_eq_extension [OF assms(1)] by auto
  then show ?thesis by (simp add: handleFileUpload_def)
qed

text \<open>The extension the handler computes for three concrete file names, whatever the size.\<close>

lemma toLowerCase_py: "toLowerCase ''py'' = ''py''"
  by code_simp

lemma toLowerCase_jsx: "toLowerCase ''jsx'' = ''jsx''"
  by code_simp

lemma fileExtension_main_py: "fileExtension \<lparr>name = ''main.py'', size_f = k\<rparr> = ''.py''"
  by (simp add: fileExtension_def pop_def toLowerCase_py)

lemma fileExtension_App_jsx: "fileExtension \<lparr>name = ''App.jsx'', size_f = k\<rparr> = ''.jsx''"
  by (simp add: fileExtension_def pop_def toLowerCase_jsx)

lemma fileExtension_py: "fileExtension \<lparr>name = ''py'', size_f = k\<rparr> = ''.py''"
  by (simp add: fileExtension_def pop_def toLowerCase_py)

text \<open>
  C2. A file whose extension is not in the allow-list is to be rejected with the notification
  titled "Invalid file type", leaving \<open>code\<close>, \<open>uploadedFile\<close> and
  \<open>language\<close> as they were. The handler misses the name without a dot: the file named
  \<open>py\<close> has no extension, yet the handler takes the whole name for the last segment,
  computes \<open>.py\<close>, shows no notification, stores the file and its text and sets the
  language to \<open>python\<close>.
\<close>

theorem handleFileUpload_accepts_py:
  "spec_extension (name \<lparr>name = ''py'', size_f = 12\<rparr>) = None
   \<and> handleFileUpload initial_state (Some \<lparr>name = ''py'', size_f = 12\<rparr>) (Some ''print(1)'')
       = (initial_state\<lparr>code := ''print(1)'', language := ''python'',
            uploadedFile := Some \<lparr>name = ''py'', size_f = 12\<rparr>\<rparr>, [])"
  by (simp add: spec_extension_def handleFileUpload_def fileExtension_py allowedTypes_def
      reader_onload_def langMap_def substring1_def initial_state_def)

text \<open>
  C3. A file with an allowed extension whose size exceeds \<open>10 * 1024 * 1024\<close> bytes is
  rejected with the notification titled "File too large" and the state is the state before
  the call; a file of at most that size passes the size check: no notification is shown and
  the file becomes \<open>uploadedFile\<close>.
\<close>

theorem handleFileUpload_size_check:
  assumes "fileExtension file \<in> set allowedTypes"
  shows "(size_f file > 10 * 1024 * 1024 \<longrightarrow>
            handleFileUpload st (Some file) r = (st, [file_too_large])
          \<and> title file_too_large = ''File too large''
          \<and> code (fst (handleFileUpload st (Some file) r)) = code st
          \<and> uploadedFile (fst (handleFileUpload st (Some file) r)) = uploadedFile st
          \<and> language (fst (handleFileUpload st (Some file) r)) = language st)
    \<and> (size_f file \<le> 10 * 1024 * 1024 \<longrightarrow>
            snd (handleFileUpload st (Some file) r) = []
          \<and> uploadedFile (fst (handleFileUpload st (Some file) r)) = Some file)"
  using assms
  by (auto simp: handleFileUpload_def file_too_large_def reader_onload_def Let_def
      split: option.splits)

theorem handleFileUpload_size_check_witness:
  "handleFileUpload initial_state
       (Some \<lparr>name = ''App.jsx'', size_f = 11 * 1024 * 1024\<rparr>) (Some ''abc'')
     = (initial_state, [file_too_large])
   \<and> uploadedFile (fst (handleFileUpload initial_state
       (Some \<lparr>name = ''main.py'', size_f = 100\<rparr>) (Some ''abc'')))
     = Some \<lparr>name = ''main.py'', size_f = 100\<rparr>"
proof -
  have h1: "fileExtension \<lparr>name = ''App.jsx'', size_f = 11 * 1024 * 1024\<rparr> \<in> set allowedTypes"
    by (simp add: fileExtension_App_jsx allowedTypes_def)
  have h2: "fileExtension \<lparr>name = ''main.py'', size_f = 100\<rparr> \<in> set allowedTypes"
    by (simp add: fileExtension_main_py allowedTypes_def)
  show ?thesis
    using handleFileUpload_size_check [OF h1, of initial_state "Some ''abc''"]
      handleFileUpload_size_check [OF h2, of initial_state "Some ''abc''"]
    by simp
qed

section \<open>Properties of the simulated analysis\<close>

text \<open>An analysis step can only write the progress cell.\<close>

lemma run_effects_frame:
  "code (run_effects effs st) = code st
   \<and> language (run_effects effs st) = language st
   \<and> isAnalyzing (run_effects effs st) = isAnalyzing st
   \<and> analysisResult (run_effects effs st) = analysisResult st
   \<and> uploadedFile (run_effects effs st) = uploadedFile st"
  unfolding run_effects_def
proof (induction effs arbitrary: st)
  case Nil
  show ?case by simp
next
  case (Cons e effs)
  show ?case using Cons.IH [of "apply_effect e st"] by (cases e) simp_all
qed

lemma simulateAnalysis_effects:
  "fst simulateAnalysis =
     [SetTimeout 800, SetProgress 20, SetTimeout 800, SetProgress 40, SetTimeout 800,
      SetProgress 60, SetTimeout 800, SetProgress 80, SetTimeout 800, SetProgress 100]"
  by (simp add: simulateAnalysis_def progressSteps_def)

text \<open>
  C5. \<^verbatim>\<open>simulateAnalysis\<close> performs exactly ten effects: five times a timer of 800 ms
  followed by a progress update, the updates being 20, 40, 60, 80, 100 in this order. The
  written values are ascending; run from the state in which \<^verbatim>\<open>handleAnalyze\<close> invokes
  it (progress reset to 0), the progress cell never decreases; and whatever the state it is
  run from, the progress is 100 when it completes.
\<close>

theorem simulateAnalysis_progress:
  "fst simulateAnalysis =
     [SetTimeout 800, SetProgress 20, SetTimeout 800, SetProgress 40, SetTimeout 800,
      SetProgress 60, SetTimeout 800, SetProgress 80, SetTimeout 800, SetProgress 100]
   \<and> progress_updates (fst simulateAnalysis) = [20, 40, 60, 80, 100]
   \<and> length (progress_updates (fst simulateAnalysis)) = 5
   \<and> sorted (progress_updates (fst simulateAnalysis))
   \<and> progress_trace (fst simulateAnalysis)
        (st\<lparr>isAnalyzing := True, progress := 0, analysisResult := None\<rparr>)
       = [0, 0, 20, 20, 40, 40, 60, 60, 80, 80, 100]
   \<and> sorted (progress_trace (fst simulateAnalysis)
        (st\<lparr>isAnalyzing := True, progress := 0, analysisResult := None\<rparr>))
   \<and> progress (run_effects (fst simulateAnalysis) st) = 100"
  by (simp add: simulateAnalysis_effects run_effects_def)

lemma trim_x: "trim ''x'' = ''x''"
  by code_simp

lemma trim_y: "trim ''y = 1'' = ''y = 1''"
  by code_simp

text \<open>Code that consists of white space only, no-break spaces included, is blank: the
  handler stops at its guard.\<close>

lemma trim_blank: "trim [CHR 0xA0, CHR '' '', CHR 0x0A, CHR 0xA0] = []"
  by code_simp

lemma handleAnalyze_blank:
  "handleAnalyze_run analysis (st\<lparr>code := [CHR 0xA0, CHR '' '', CHR 0x0A, CHR 0xA0]\<rparr>)
     = (st\<lparr>code := [CHR 0xA0, CHR '' '', CHR 0x0A, CHR 0xA0]\<rparr>, [no_code_to_analyze], [])"
  by (simp add: handleAnalyze_run_def trim_blank)

text \<open>
  C6. When the code is not blank and the analysis step returns normally, the handler stores
  the returned result in \<open>analysisResult\<close>; with \<^verbatim>\<open>simulateAnalysis\<close> as the step,
  as on the page, \<open>analysisResult\<close> is not null after the run and the results card renders
  exactly the three tabs Summary, Issues and Fixes.
\<close>

theorem handleAnalyze_three_tabs:
  assumes "trim (code st) \<noteq> []"
  shows "(\<forall>result. snd analysis = Inr result \<longrightarrow>
            analysisResult (fst (handleAnalyze_with analysis st)) = Some result
          \<and> results_tabs (fst (handleAnalyze_with analysis st))
              = [''Summary'', ''Issues'', ''Fixes''])
    \<and> analysisResult (fst (handleAnalyze st)) \<noteq> None
    \<and> results_tabs (fst (handleAnalyze st)) = [''Summary'', ''Issues'', ''Fixes'']
    \<and> length (results_tabs (fst (handleAnalyze st))) = 3"
  using assms
  by (simp add: handleAnalyze_def handleAnalyze_with_def handleAnalyze_run_def Let_def results_tabs_def
      simulateAnalysis_def)

theorem handleAnalyze_three_tabs_witness:
  "results_tabs (fst (handleAnalyze (initial_state\<lparr>code := ''x''\<rparr>)))
     = [''Summary'', ''Issues'', ''Fixes'']"
proof -
  have h: "trim (code (initial_state\<lparr>code := ''x''\<rparr>)) \<noteq> []"
    by (simp add: trim_x)
  show ?thesis using handleAnalyze_three_tabs [OF h] by simp
qed

text \<open>
  C7. When the code is not blank and the analysis step throws, the only notification is the
  one titled "Analysis failed"; the state after the handler is the state the step left, with
  \<open>isAnalyzing\<close> false, and \<open>analysisResult\<close> is still null, as it was cleared
  before the step. Whether the step throws or returns, the progress writes and timers of the
  run are the reset to 0 followed by the effects of the step, once: the step is not run a
  second time and nothing is done after it; and \<open>isAnalyzing\<close> is false after the
  handler.
\<close>

theorem handleAnalyze_failure:
  assumes "trim (code st) \<noteq> []"
  shows "(snd analysis = Inl err \<longrightarrow>
            snd (handleAnalyze_with analysis st) = [analysis_failed]
          \<and> title analysis_failed = ''Analysis failed''
          \<and> fst (handleAnalyze_with analysis st)
              = (run_effects (fst analysis)
                   (st\<lparr>isAnalyzing := True, progress := 0, analysisResult := None\<rparr>))
                 \<lparr>isAnalyzing := False\<rparr>
          \<and> analysisResult (fst (handleAnalyze_with analysis st)) = None)
    \<and> snd (snd (handleAnalyze_run analysis st)) = SetProgress 0 # fst analysis
    \<and> isAnalyzing (fst (handleAnalyze_with analysis st)) = False"
  using assms
  by (simp add: handleAnalyze_with_def handleAnalyze_run_def Let_def analysis_failed_def run_effects_frame
      split: sum.splits)

theorem handleAnalyze_failure_witness:
  "handleAnalyze_with ([SetTimeout 800, SetProgress 20], Inl (Error ''boom''))
       (initial_state\<lparr>code := ''x''\<rparr>)
     = (initial_state\<lparr>code := ''x'', progress := 20\<rparr>, [analysis_failed])
   \<and> snd (snd (handleAnalyze_run ([SetTimeout 800, SetProgress 20], Inl (Error ''boom''))
       (initial_state\<lparr>code := ''x''\<rparr>)))
     = [SetProgress 0, SetTimeout 800, SetProgress 20]"
proof -
  have h: "trim (code (initial_state\<lparr>code := ''x''\<rparr>)) \<noteq> []"
    by (simp add: trim_x)
  show ?thesis
    using handleAnalyze_failure
      [OF h, of "([SetTimeout 800, SetProgress 20], Inl (Error ''boom''))" "Error ''boom''"]
    by (simp add: prod_eq_iff run_effects_def initial_state_def)
qed

lemma string_of_nat_3: "string_of_nat (Suc (Suc (Suc 0))) = ''3''"
  by code_simp

text \<open>
  C8. \<^verbatim>\<open>simulateAnalysis\<close> takes no argument and reads no state: it returns one fixed
  result \<open>r\<close>, and every run of \<^verbatim>\<open>handleAnalyze\<close> on non-blank code stores this same
  \<open>r\<close>. In \<open>r\<close> the three counters add up to 3, which is the number of problems and
  the number of issues the summary text announces, and the confidence is 94, between 0 and
  100.
\<close>

theorem simulateAnalysis_result:
  "\<exists>r. snd simulateAnalysis = Inr r
     \<and> securityIssues r + performanceIssues r + bugCount r = 3
     \<and> int (length (problems r)) = 3
     \<and> take 14 (summary r) = ''Found '' @ string_of_nat (length (problems r)) @ '' issues''
     \<and> confidence r = 94 \<and> 0 \<le> confidence r \<and> confidence r \<le> 100
     \<and> (trim (code st) \<noteq> [] \<and> trim (code st') \<noteq> [] \<longrightarrow>
          analysisResult (fst (handleAnalyze st)) = Some r
        \<and> analysisResult (fst (handleAnalyze st')) = Some r)"
  by (simp add: simulateAnalysis_def string_of_nat_3 handleAnalyze_def handleAnalyze_with_def handleAnalyze_run_def
      Let_def)

theorem simulateAnalysis_result_witness:
  "analysisResult (fst (handleAnalyze (initial_state\<lparr>code := ''x''\<rparr>)))
     = analysisResult
         (fst (handleAnalyze (initial_state\<lparr>code := ''y = 1'', language := ''python''\<rparr>)))
   \<and> analysisResult (fst (handleAnalyze (initial_state\<lparr>code := ''x''\<rparr>))) \<noteq> None"
proof -
  have h1: "trim (code (initial_state\<lparr>code := ''x''\<rparr>)) \<noteq> []"
    by (simp add: trim_x)
  have h2: "trim (code (initial_state\<lparr>code := ''y = 1'', language := ''python''\<rparr>)) \<noteq> []"
    by (simp add: trim_y)
  obtain r where
    "analysisResult (fst (handleAnalyze (initial_state\<lparr>code := ''x''\<rparr>))) = Some r"
    "analysisResult
       (fst (handleAnalyze (initial_state\<lparr>code := ''y = 1'', language := ''python''\<rparr>)))
     = Some r"
    using simulateAnalysis_result
      [of "initial_state\<lparr>code := ''x''\<rparr>"
          "initial_state\<lparr>code := ''y = 1'', language := ''python''\<rparr>"]
      h1 h2
    by blast
  then show ?thesis by simp
qed

section \<open>What the two file inputs accept\<close>

lemma default_entries:
  "accept_entries dropzone_default_accept
     = ''text/*'' # allowedTypes @ [''application/pdf'', ''.pdf'']"
  by (simp add: accept_entries_def dropzone_default_accept_def allowedTypes_def)

lemma extension_entries_normal:
  "\<forall>entry \<in> set (allowedTypes @ [''.pdf'']).
     toLowerCase (trim entry) = entry \<and> take 1 entry = ''.'' \<and> CHR ''.'' \<notin> set (drop 1 entry)"
  by code_simp

lemma mime_entries_normal:
  "toLowerCase (trim ''text/*'') = ''text/*''
   \<and> toLowerCase (trim ''application/pdf'') = ''application/pdf''"
  by code_simp

lemma extension_entry_matches:
  assumes "entry \<in> set (allowedTypes @ [''.pdf''])" and "accept_entry_matches entry f"
  shows "spec_extension (name f) = Some entry"
proof -
  from assms(1) extension_entries_normal
  have n: "toLowerCase (trim entry) = entry" "take 1 entry = ''.''"
    "CHR ''.'' \<notin> set (drop 1 entry)" by blast+
  from n(2) have e: "entry = CHR ''.'' # drop 1 entry" by (cases entry) simp_all
  have "endsWith (toLowerCase (name f)) entry"
    using assms(2) n(1) n(2) by (simp add: accept_entry_matches_def Let_def)
  then have "endsWith (toLowerCase (name f)) (CHR ''.'' # drop 1 entry)"
    using e by simp
  then have "spec_extension (name f) = Some (CHR ''.'' # drop 1 entry)"
    using n(3) by (rule endsWith_extension)
  then show ?thesis using e by simp
qed

lemma text_entry_matches:
  "accept_entry_matches ''text/*'' f
     = (takeWhile (\<lambda>c. c \<noteq> CHR ''/'') (toLowerCase (type_f f)) = ''text'')"
  by (simp add: accept_entry_matches_def Let_def mime_entries_normal endsWith_def)

lemma pdf_entry_matches:
  "accept_entry_matches ''application/pdf'' f = (toLowerCase (type_f f) = ''application/pdf'')"
  by (simp add: accept_entry_matches_def Let_def mime_entries_normal endsWith_def)

lemma toLowerCase_names:
  "toLowerCase ''report.pdf'' = ''report.pdf'' \<and> toLowerCase ''notes.txt'' = ''notes.txt''
   \<and> toLowerCase ''main.py'' = ''main.py''
   \<and> toLowerCase ''application/pdf'' = ''application/pdf''
   \<and> toLowerCase ''text/plain'' = ''text/plain''"
  by code_simp

lemma Dropzone_accepts_report_pdf:
  "Dropzone_accepts \<lparr>name = ''report.pdf'', size_f = 2048, type_f = ''application/pdf''\<rparr>"
  by (simp add: Dropzone_accepts_def useDropzone_accepts_def default_entries
      dropzone_default_maxSize_def pdf_entry_matches toLowerCase_names)

lemma Dropzone_accepts_notes_txt:
  "Dropzone_accepts \<lparr>name = ''notes.txt'', size_f = 100, type_f = ''text/plain''\<rparr>"
  by (simp add: Dropzone_accepts_def useDropzone_accepts_def default_entries
      dropzone_default_maxSize_def text_entry_matches toLowerCase_names)

text \<open>
  The Dropzone with its default properties accepts a PDF file, and it accepts a plain text
  file by its MIME type: neither extension is one of the twelve of C1, and \<open>.txt\<close> is
  not even listed in the configuration.
\<close>

theorem dropzone_accepts_pdf_and_text:
  "Dropzone_accepts \<lparr>name = ''report.pdf'', size_f = 2048, type_f = ''application/pdf''\<rparr>
   \<and> spec_extension ''report.pdf'' = Some ''.pdf''
   \<and> ''.pdf'' \<notin> set allowedTypes
   \<and> Dropzone_accepts \<lparr>name = ''notes.txt'', size_f = 100, type_f = ''text/plain''\<rparr>
   \<and> spec_extension ''notes.txt'' = Some ''.txt''
   \<and> ''.txt'' \<notin> set (allowedTypes @ [''.pdf''])"
  by (simp add: Dropzone_accepts_report_pdf Dropzone_accepts_notes_txt spec_extension_def
      toLowerCase_names allowedTypes_def)

text \<open>
  C1, amended. A file with a dot in its name that the upload handler of the Analyze page
  accepts (no rejection notice) has its extension among the twelve of \<open>allowedTypes\<close>.
  A file that the Dropzone accepts with its default properties has its extension among these
  twelve or \<open>.pdf\<close>, or its MIME type is \<open>text/*\<close>, \<open>application/pdf\<close> or
  \<open>application/x-moz-file\<close>.
\<close>

theorem file_inputs_extensions:
  "(snd (handleFileUpload st (Some file) r) = [] \<and> CHR ''.'' \<in> set (name file) \<longrightarrow>
      (\<exists>e \<in> set allowedTypes. spec_extension (name file) = Some e))
   \<and> (Dropzone_accepts dfile \<longrightarrow>
        (\<exists>e \<in> set (allowedTypes @ [''.pdf'']). spec_extension (name dfile) = Some e)
        \<or> takeWhile (\<lambda>c. c \<noteq> CHR ''/'') (toLowerCase (type_f dfile)) = ''text''
        \<or> toLowerCase (type_f dfile) = ''application/pdf''
        \<or> type_f dfile = ''application/x-moz-file'')"
proof (intro conjI impI)
  assume a: "snd (handleFileUpload st (Some file) r) = [] \<and> CHR ''.'' \<in> set (name file)"
  then have "fileExtension file \<in> set allowedTypes"
    by (simp add: handleFileUpload_def split: if_splits)
  moreover have "spec_extension (name file) = Some (fileExtension file)"
    using a by (simp add: fileExtension_eq_extension)
  ultimately show "\<exists>e \<in> set allowedTypes. spec_extension (name file) = Some e"
    by blast
next
  assume "Dropzone_accepts dfile"
  then consider (moz) "type_f dfile = ''application/x-moz-file''"
    | (entry) entry where "entry \<in> set (accept_entries dropzone_default_accept)"
        "accept_entry_matches entry dfile"
    by (auto simp: Dropzone_accepts_def useDropzone_accepts_def list_ex_iff)
  then show "(\<exists>e \<in> set (allowedTypes @ [''.pdf'']). spec_extension (name dfile) = Some e)
        \<or> takeWhile (\<lambda>c. c \<noteq> CHR ''/'') (toLowerCase (type_f dfile)) = ''text''
        \<or> toLowerCase (type_f dfile) = ''application/pdf''
        \<or> type_f dfile = ''application/x-moz-file''"
  proof cases
    case moz
    then show ?thesis by simp
  next
    case entry
    from entry(1) consider "entry = ''text/*''" | "entry = ''application/pdf''"
      | "entry \<in> set (allowedTypes @ [''.pdf''])"
      unfolding default_entries by auto
    then show ?thesis
    proof cases
      case 1
      then show ?thesis using entry(2) by (simp add: text_entry_matches)
    next
      case 2
      then show ?thesis using entry(2) by (simp add: pdf_entry_matches)
    next
      case 3
      then have "spec_extension (name dfile) = Some entry"
        using entry(2) by (rule extension_entry_matches)
      with 3 show ?thesis by blast
    qed
  qed
qed

theorem file_inputs_extensions_witness:
  "snd (handleFileUpload initial_state (Some \<lparr>name = ''main.py'', size_f = 100\<rparr>)
         (Some ''x = 1'')) = []
   \<and> spec_extension ''main.py'' = Some ''.py''
   \<and> ''.py'' \<in> set allowedTypes
   \<and> Dropzone_accepts \<lparr>name = ''report.pdf'', size_f = 2048, type_f = ''application/pdf''\<rparr>
   \<and> spec_extension ''report.pdf'' = Some ''.pdf''"
proof -
  have h: "snd (handleFileUpload initial_state (Some \<lparr>name = ''main.py'', size_f = 100\<rparr>)
         (Some ''x = 1'')) = []
      \<and> CHR ''.'' \<in> set (name \<lparr>name = ''main.py'', size_f = 100\<rparr>)"
    by (simp add: handleFileUpload_def fileExtension_main_py allowedTypes_def)
  have e: "spec_extension ''main.py'' = Some ''.py''
      \<and> spec_extension ''report.pdf'' = Some ''.pdf''"
    by (simp add: spec_extension_def toLowerCase_names)
  show ?thesis
    using h e Dropzone_accepts_report_pdf
      file_inputs_extensions
        [of initial_state "\<lparr>name = ''main.py'', size_f = 100\<rparr>" "Some ''x = 1''"
            "\<lparr>name = ''report.pdf'', size_f = 2048, type_f = ''application/pdf''\<rparr>"]
    by (simp add: allowedTypes_def)
qed

section \<open>Language detection\<close>

text \<open>
  C9. Every extension of \<open>allowedTypes\<close>, without its dot, has a non-empty entry in
  \<open>langMap\<close>; so for a file that passes the type check and the size check, once the
  reader has delivered its text, \<open>language\<close> is the language mapped from the file's
  extension. Both \<open>.jsx\<close> and \<open>.js\<close> map to \<open>javascript\<close>.
\<close>

theorem langMap_total:
  "(\<forall>e \<in> set allowedTypes. \<exists>l. langMap (substring1 e) = Some l \<and> l \<noteq> [])
   \<and> (fileExtension file \<in> set allowedTypes \<and> size_f file \<le> 10 * 1024 * 1024 \<longrightarrow>
        (\<exists>l. langMap (substring1 (fileExtension file)) = Some l
           \<and> language (fst (handleFileUpload st (Some file) (Some content))) = l))
   \<and> langMap (substring1 ''.jsx'') = Some ''javascript''
   \<and> langMap (substring1 ''.js'') = Some ''javascript''"
proof -
  have total: "\<forall>e \<in> set allowedTypes. \<exists>l. langMap (substring1 e) = Some l \<and> l \<noteq> []"
    by (simp add: allowedTypes_def langMap_def substring1_def)
  have upload: "\<exists>l. langMap (substring1 (fileExtension file)) = Some l
           \<and> language (fst (handleFileUpload st (Some file) (Some content))) = l"
    if ok: "fileExtension file \<in> set allowedTypes" "size_f file \<le> 10 * 1024 * 1024"
  proof -
    obtain l where l: "langMap (substring1 (fileExtension file)) = Some l" "l \<noteq> []"
      using total ok(1) by blast
    have "language (fst (handleFileUpload st (Some file) (Some content))) = l"
      using ok l by (simp add: handleFileUpload_def reader_onload_def Let_def)
    with l show ?thesis by blast
  qed
  have ex: "langMap (substring1 ''.jsx'') = Some ''javascript''
      \<and> langMap (substring1 ''.js'') = Some ''javascript''"
    by (simp add: langMap_def substring1_def)
  from total upload ex show ?thesis by blast
qed

theorem langMap_total_witness:
  "language (fst (handleFileUpload initial_state
       (Some \<lparr>name = ''main.py'', size_f = 100\<rparr>) (Some ''x = 1''))) = ''python''
   \<and> language (fst (handleFileUpload (initial_state\<lparr>language := ''rust''\<rparr>)
       (Some \<lparr>name = ''App.jsx'', size_f = 100\<rparr>) (Some ''abc''))) = ''javascript''"
proof -
  have h1: "fileExtension \<lparr>name = ''main.py'', size_f = 100\<rparr> \<in> set allowedTypes
      \<and> size_f \<lparr>name = ''main.py'', size_f = 100\<rparr> \<le> 10 * 1024 * 1024"
    by (simp add: fileExtension_main_py allowedTypes_def)
  have h2: "fileExtension \<lparr>name = ''App.jsx'', size_f = 100\<rparr> \<in> set allowedTypes
      \<and> size_f \<lparr>name = ''App.jsx'', size_f = 100\<rparr> \<le> 10 * 1024 * 1024"
    by (simp add: fileExtension_App_jsx allowedTypes_def)
  have m1: "langMap (substring1 ''.py'') = Some ''python''"
    by (simp add: langMap_def substring1_def)
  have m2: "langMap (substring1 ''.jsx'') = Some ''javascript''"
    by (simp add: langMap_def substring1_def)
  show ?thesis
    using h1 h2 m1 m2
      langMap_total [of "\<lparr>name = ''main.py'', size_f = 100\<rparr>" initial_state "''x = 1''"]
      langMap_total [of "\<lparr>name = ''App.jsx'', size_f = 100\<rparr>"
        "initial_state\<lparr>language := ''rust''\<rparr>" "''abc''"]
    by (auto simp: fileExtension_main_py fileExtension_App_jsx)
qed

section \<open>Error notifications\<close>

lemma trim_Nil: "trim [] = []"
  by (simp add: trim_def)

text \<open>
  Pressing Analyze with nothing in the code field shows a destructive notification titled
  "No code to analyze": the three notices of C4 (invalid file type, file too large, analysis
  failed) are not the only ones.
\<close>

theorem no_code_notice_destructive:
  "snd (handleAnalyze initial_state) = [no_code_to_analyze]
   \<and> variant no_code_to_analyze = Some ''destructive''
   \<and> title no_code_to_analyze = ''No code to analyze''
   \<and> title no_code_to_analyze
        \<notin> {title invalid_file_type, title file_too_large, title analysis_failed}"
  by (simp add: handleAnalyze_def handleAnalyze_with_def handleAnalyze_run_def initial_state_def trim_Nil
      no_code_to_analyze_def invalid_file_type_def file_too_large_def analysis_failed_def)

lemma handle_event_notices:
  "t \<in> set (snd (handle_event ev st)) \<Longrightarrow>
   variant t = Some ''destructive'' \<Longrightarrow>
   title t \<in> {''Invalid file type'', ''File too large'', ''No code to analyze'',
                 ''Analysis failed'', ''Error signing out''}"
proof (cases ev)
  case (FileUpload files0 readResult)
  assume "t \<in> set (snd (handle_event ev st))"
  then show ?thesis using FileUpload
    by (auto simp: handleFileUpload_def invalid_file_type_def file_too_large_def Let_def
        split: option.splits if_splits)
next
  case (Analyze analysis)
  assume "t \<in> set (snd (handle_event ev st))" "variant t = Some ''destructive''"
  then show ?thesis using Analyze
    by (auto simp: handleAnalyze_with_def handleAnalyze_run_def no_code_to_analyze_def analysis_failed_def
        analysis_complete_def Let_def split: sum.splits if_splits)
next
  case (CopyToClipboard str)
  assume "t \<in> set (snd (handle_event ev st))" "variant t = Some ''destructive''"
  then show ?thesis using CopyToClipboard
    by (simp add: copyToClipboard_def copied_to_clipboard_def)
next
  case (SignOut signOut)
  assume "t \<in> set (snd (handle_event ev st))" "variant t = Some ''destructive''"
  then show ?thesis using SignOut
    by (auto simp: handleSignOut_def signed_out_def error_signing_out_def
        split: option.splits)
qed

lemma run_events_Cons:
  "snd (run_events (ev # evs) st)
     = snd (handle_event ev st) @ snd (run_events evs (fst (handle_event ev st)))"
  by (simp add: case_prod_beta Let_def)

text \<open>
  C4, amended. In every session, whatever the events and their outcomes, each notification of
  the destructive variant is one of five: invalid file type, file too large, no code to
  analyze, analysis failed, error signing out.
\<close>

theorem destructive_notices:
  "\<forall>t \<in> set (snd (run_events evs st)).
     variant t = Some ''destructive'' \<longrightarrow>
     title t \<in> {''Invalid file type'', ''File too large'', ''No code to analyze'',
                 ''Analysis failed'', ''Error signing out''}"
proof (induction evs arbitrary: st)
  case Nil
  show ?case by simp
next
  case (Cons ev evs)
  show ?case
    unfolding run_events_Cons
    using handle_event_notices [of _ ev st] Cons.IH [of "fst (handle_event ev st)"]
    by auto
qed

theorem destructive_notices_witness:
  "snd (run_events [Analyze simulateAnalysis, SignOut (Some (Error ''network''))] initial_state)
     = [no_code_to_analyze, error_signing_out]
   \<and> variant no_code_to_analyze = Some ''destructive''
   \<and> title no_code_to_analyze
        \<in> {''Invalid file type'', ''File too large'', ''No code to analyze'',
            ''Analysis failed'', ''Error signing out''}
   \<and> variant error_signing_out = Some ''destructive''
   \<and> title error_signing_out
        \<in> {''Invalid file type'', ''File too large'', ''No code to analyze'',
            ''Analysis failed'', ''Error signing out''}"
proof -
  have run: "snd (run_events [Analyze simulateAnalysis, SignOut (Some (Error ''network''))]
      initial_state) = [no_code_to_analyze, error_signing_out]"
    by (simp add: handleAnalyze_with_def handleAnalyze_run_def handleSignOut_def initial_state_def trim_Nil)
  have v: "variant no_code_to_analyze = Some ''destructive''"
    "variant error_signing_out = Some ''destructive''"
    by (simp_all add: no_code_to_analyze_def error_signing_out_def)
  show ?thesis
    using run v destructive_notices
      [of "[Analyze simulateAnalysis, SignOut (Some (Error ''network''))]" initial_state]
    by simp
qed

section \<open>The average confidence on the Dashboard\<close>

lemma reduce_sum:
  "reduce (\<lambda>sum a. sum + f a) (acc :: int) xs = acc + sum_list (map f xs)"
  by (induction xs arbitrary: acc) simp_all

text \<open>
  C10. On an empty list of analyses the division is \<^verbatim>\<open>0 / 0\<close>, that is
  \<^verbatim>\<open>NaN\<close>, and the guard \<^verbatim>\<open>|| 0\<close> makes the displayed value 0; on a non-empty
  list the displayed value is the mean of the confidence fields rounded to the nearest
  integer.
\<close>

theorem avgConfidence_safe:
  "avgConfidence [] = Num 0
   \<and> (analyses \<noteq> [] \<longrightarrow>
        avgConfidence analyses
          = Num (of_int (round (real_of_int (sum_list (map confidence_a analyses))
                                / real (length analyses)))))"
  by (simp add: avgConfidence_def js_div_def js_or_def reduce_sum round_def)

theorem avgConfidence_safe_witness:
  "mockAnalyses \<noteq> [] \<and> avgConfidence mockAnalyses = Num 61"
proof -
  have h: "mockAnalyses \<noteq> []" by (simp add: mockAnalyses_def)
  have "round (real_of_int (sum_list (map confidence_a mockAnalyses))
                                / real (length mockAnalyses)) = 61"
    by (simp add: mockAnalyses_def round_def) 
  then show ?thesis using h avgConfidence_safe [of mockAnalyses] by simp
qed

end
